theory Spec2Isabelle
  imports Complex_Main
begin

section \<open>Data model of the frontend\<close>

text \<open>
  The frontend receives its data as JSON. A numeric field that may be absent (or
  \<^verbatim>\<open>null\<close>) is an option; a present number is a real (JSON has no NaN). Comparison of
  JavaScript numbers with the constants 30 and 60 is exact, so \<open><\<close> on \<^typ>\<open>real\<close>
  is the comparison the code performs.
\<close>

record prediction =
  current_wait_time :: "real option"
  confidence :: "real option"
  factors :: "string list option"
  recommendation :: "string option"
  prediction_method :: "string option"

record hospital =
  hospital_id :: string
  name :: string
  address :: "string option"
  coordinates :: "real \<times> real"
  rating :: "real option"
  distance_miles :: "real option"

text \<open>
  The predictions object maps hospital ids to predictions. It is kept as an association
  list (the object's own properties in order, keys distinct), so that
  \<^verbatim>\<open>Object.keys\<close>, \<^verbatim>\<open>Object.values\<close> and \<^verbatim>\<open>predictions[id]\<close> are all computable.
\<close>

type_synonym predictions = "(string \<times> prediction) list"

definition Object_keys :: "predictions \<Rightarrow> string list" where
  "Object_keys obj = map fst obj"

definition Object_values :: "predictions \<Rightarrow> prediction list" where
  "Object_values obj = map snd obj"

text \<open>\<^verbatim>\<open>predictions[hospital.id]\<close>: \<open>None\<close> is \<^verbatim>\<open>undefined\<close>.\<close>

definition lookup :: "predictions \<Rightarrow> string \<Rightarrow> prediction option" where
  "lookup obj k = map_of obj k"

text \<open>
  \<^verbatim>\<open>x || d\<close> on a numeric field: the falsy values are \<^verbatim>\<open>undefined\<close>, \<^verbatim>\<open>null\<close>
  and \<open>0\<close>.
\<close>

definition or_default :: "real option \<Rightarrow> real \<Rightarrow> real" where
  "or_default v d = (case v of None \<Rightarrow> d | Some x \<Rightarrow> if x = 0 then d else x)"

text \<open>\<^verbatim>\<open>prediction?.current_wait_time\<close>\<close>

definition opt_current_wait_time :: "prediction option \<Rightarrow> real option" where
  "opt_current_wait_time p = (case p of None \<Rightarrow> None | Some q \<Rightarrow> current_wait_time q)"

section \<open>Wait-time bucketing\<close>

subsection \<open>HospitalMap\<close>

definition getWaitTimeColor :: "real \<Rightarrow> string" where
  "getWaitTimeColor waitTime =
     (if waitTime < 30 then ''#10b981''
      else if waitTime < 60 then ''#f59e0b''
      else ''#dc2626'')"

definition HospitalMap_getWaitTimeClass :: "real \<Rightarrow> string" where
  "HospitalMap_getWaitTimeClass waitTime =
     (if waitTime < 30 then ''low''
      else if waitTime < 60 then ''medium''
      else ''high'')"

text \<open>The legend under the map: the colour of each dot and the text beside it.\<close>

definition legend :: "(string \<times> string) list" where
  "legend =
     [(''#10b981'', ''Low wait (<30 min)''),
      (''#f59e0b'', ''Medium wait (30-60 min)''),
      (''#dc2626'', ''High wait (>60 min)'')]"

text \<open>What the map shows for one hospital: the marker's number and its colour.\<close>

record marker =
  marker_key :: string
  marker_waitTime :: real
  marker_color :: string

definition HospitalMap_marker :: "predictions \<Rightarrow> hospital \<Rightarrow> marker" where
  "HospitalMap_marker preds h =
     (let prediction = lookup preds (hospital_id h);
          waitTime = or_default (opt_current_wait_time prediction) 30
      in \<lparr>marker_key = hospital_id h,
          marker_waitTime = waitTime,
          marker_color = getWaitTimeColor waitTime\<rparr>)"

text \<open>The markers of the map, one for each hospital of a non-empty list.\<close>

definition HospitalMap_markers :: "predictions \<Rightarrow> hospital list \<Rightarrow> marker list" where
  "HospitalMap_markers preds hs = map (HospitalMap_marker preds) hs"

subsection \<open>PredictionCards\<close>

definition getWaitTimeClass :: "real \<Rightarrow> string" where
  "getWaitTimeClass waitTime =
     (if waitTime < 30 then ''low''
      else if waitTime < 60 then ''medium''
      else ''high'')"

definition getWaitTimeLabel :: "real \<Rightarrow> string" where
  "getWaitTimeLabel waitTime =
     (if waitTime < 30 then ''Low wait''
      else if waitTime < 60 then ''Medium wait''
      else ''High wait'')"

text \<open>
  What the list shows for one hospital: the number, the bucket class of the card, and the
  label line, which is rendered only when a prediction exists.
\<close>

record card =
  card_key :: string
  card_currentWait :: real
  card_waitClass :: string
  card_className :: string
  card_label :: "string option"

definition PredictionCards_card :: "predictions \<Rightarrow> hospital \<Rightarrow> card" where
  "PredictionCards_card preds h =
     (let prediction = lookup preds (hospital_id h);
          currentWait = or_default (opt_current_wait_time prediction) 30;
          waitClass = getWaitTimeClass currentWait
      in \<lparr>card_key = hospital_id h,
          card_currentWait = currentWait,
          card_waitClass = waitClass,
          card_className = ''prediction-card '' @ waitClass @ ''-wait'',
          card_label = (case prediction of None \<Rightarrow> None
                        | Some _ \<Rightarrow> Some (getWaitTimeLabel currentWait))\<rparr>)"

text \<open>The cards of the list, one for each hospital, rendered when the loading prop is falsy.\<close>

definition PredictionCards_cards :: "predictions \<Rightarrow> hospital list \<Rightarrow> card list" where
  "PredictionCards_cards preds hs = map (PredictionCards_card preds) hs"

section \<open>RealTimeUpdates: the update history and the trend\<close>

text \<open>
  One entry of the update history. The timestamp is the clock reading of
  \<^verbatim>\<open>new Date()\<close>, passed in by the caller; the predictions are the shallow copy
  \<^verbatim>\<open>{ ...predictions }\<close>.
\<close>

record update =
  timestamp :: nat
  update_predictions :: predictions
  update_type :: string

definition newUpdate :: "nat \<Rightarrow> predictions \<Rightarrow> update" where
  "newUpdate now preds =
     \<lparr>timestamp = now, update_predictions = preds, update_type = ''prediction_update''\<rparr>"

text \<open>
  The effect that runs on mount and after every change of the predictions prop:
  \<^verbatim>\<open>setUpdateHistory(prev => [newUpdate, ...prev.slice(0, 9)])\<close> under the guard
  \<^verbatim>\<open>Object.keys(predictions).length > 0\<close>.
\<close>

definition predictions_effect :: "nat \<Rightarrow> predictions \<Rightarrow> update list \<Rightarrow> update list" where
  "predictions_effect now preds prev =
     (if length (Object_keys preds) > 0 then newUpdate now preds # take 9 prev else prev)"

text \<open>
  The history after a sequence of predictions changes, oldest change first, each with the
  clock reading at which its effect ran. The component starts from the empty history.
\<close>

fun run_effects :: "(nat \<times> predictions) list \<Rightarrow> update list \<Rightarrow> update list" where
  "run_effects [] hist = hist"
| "run_effects ((now, preds) # rest) hist = run_effects rest (predictions_effect now preds hist)"

definition updateHistory_after :: "(nat \<times> predictions) list \<Rightarrow> update list" where
  "updateHistory_after changes = run_effects changes []"

text \<open>
  The entries the history is expected to hold, in the words of the specification: one
  entry for each change with a non-empty predictions map, the newest first.
\<close>

definition recorded :: "(nat \<times> predictions) list \<Rightarrow> update list" where
  "recorded changes =
     rev (map (\<lambda>(now, preds). newUpdate now preds)
            (filter (\<lambda>(now, preds). preds \<noteq> []) changes))"

text \<open>\<^verbatim>\<open>Math.round\<close> rounds to the nearest integer, halves upwards.\<close>

definition Math_round :: "real \<Rightarrow> real" where
  "Math_round x = of_int \<lfloor>x + 1 / 2\<rfloor>"

definition getAverageWaitTime :: "predictions \<Rightarrow> real" where
  "getAverageWaitTime preds =
     (let waitTimes = map (\<lambda>p. or_default (current_wait_time p) 0) (Object_values preds)
      in if length waitTimes > 0
         then Math_round (foldl (\<lambda>a b. a + b) 0 waitTimes / real (length waitTimes))
         else 0)"

text \<open>
  Division in JavaScript does not raise on a zero divisor: it gives an infinity or NaN.
  The result type makes these outcomes visible.
\<close>

datatype jsnum = Fin real | PosInf | NegInf | NaN

definition js_div :: "real \<Rightarrow> real \<Rightarrow> jsnum" where
  "js_div a b =
     (if b \<noteq> 0 then Fin (a / b)
      else if 0 < a then PosInf
      else if a < 0 then NegInf
      else NaN)"

fun js_plus :: "jsnum \<Rightarrow> real \<Rightarrow> jsnum" where
  "js_plus (Fin x) c = Fin (x + c)"
| "js_plus PosInf c = PosInf"
| "js_plus NegInf c = NegInf"
| "js_plus NaN c = NaN"

fun js_less :: "jsnum \<Rightarrow> jsnum \<Rightarrow> bool" where
  "js_less (Fin a) (Fin b) = (a < b)"
| "js_less (Fin a) PosInf = True"
| "js_less NegInf (Fin b) = True"
| "js_less NegInf PosInf = True"
| "js_less _ _ = False"

text \<open>\<^verbatim>\<open>updateHistory[1]\<close>: \<open>None\<close> is \<^verbatim>\<open>undefined\<close>.\<close>

definition at_index :: "'a list \<Rightarrow> nat \<Rightarrow> 'a option" where
  "at_index xs i = (if i < length xs then Some (xs ! i) else None)"

text \<open>The divisor of the previous average: the number of keys of the entry's predictions.\<close>

definition previous_divisor :: "update \<Rightarrow> nat" where
  "previous_divisor u = length (Object_keys (update_predictions u))"

text \<open>
  The value bound to \<^verbatim>\<open>previous\<close>. An object is truthy even when it is empty, so
  whenever the entry exists the division is evaluated.
\<close>

definition previous_average :: "update list \<Rightarrow> jsnum" where
  "previous_average updateHistory =
     (case at_index updateHistory 1 of
        None \<Rightarrow> Fin 0
      | Some u \<Rightarrow>
          js_div
            (foldl (\<lambda>sum p. sum + or_default (current_wait_time p) 0) 0
               (Object_values (update_predictions u)))
            (real (previous_divisor u)))"

definition getTrendDirection :: "predictions \<Rightarrow> update list \<Rightarrow> string" where
  "getTrendDirection preds updateHistory =
     (if length updateHistory < 2 then ''stable''
      else
        let current = getAverageWaitTime preds;
            previous = previous_average updateHistory
        in if js_less (js_plus previous 5) (Fin current) then ''increasing''
           else if js_less (Fin current) (js_plus previous (- 5)) then ''decreasing''
           else ''stable'')"

section \<open>PulseBackground: the grid of decorative elements\<close>

text \<open>
  \<^verbatim>\<open>Math.random()\<close> is a source of numbers in \<open>[0, 1)\<close>, read in order. The source is
  a stream \<open>rnd\<close>; the position of the next unread number is threaded through the
  code, so that every call consumes exactly one number.
\<close>

type_synonym rng = "nat \<Rightarrow> real"

definition Math_random :: "rng \<Rightarrow> nat \<Rightarrow> real \<times> nat" where
  "Math_random rnd pos = (rnd pos, Suc pos)"

definition Math_floor :: "real \<Rightarrow> int" where
  "Math_floor x = \<lfloor>x\<rfloor>"

text \<open>Array indexing by a computed integer; out of range gives \<^verbatim>\<open>undefined\<close>.\<close>

definition index :: "'a list \<Rightarrow> int \<Rightarrow> 'a option" where
  "index xs i = (if 0 \<le> i \<and> i < int (length xs) then Some (xs ! nat i) else None)"

definition shapeTypes :: "string list" where
  "shapeTypes = [''dot'', ''circle'', ''square'']"

definition rotating_types :: "string list" where
  "rotating_types = [''diamond'', ''cross'', ''star'']"

definition Array_includes :: "string list \<Rightarrow> string option \<Rightarrow> bool" where
  "Array_includes xs v = (case v of None \<Rightarrow> False | Some s \<Rightarrow> s \<in> set xs)"

text \<open>
  The id of an element is the template \<^verbatim>\<open>${i}-${randomType}-${j}\<close>; it is kept as
  its three interpolated parts.
\<close>

record element =
  element_type :: "string option"
  element_id :: "nat \<times> string option \<times> nat"
  delay :: real
  top :: real
  left :: real
  rotating :: bool

record cell =
  cellId :: nat
  elements :: "element list"

text \<open>
  One pass of the body of the inner loop. The second operand of \<^verbatim>\<open>&&\<close> is evaluated,
  and a random number consumed, only when the first is true.
\<close>

definition make_element :: "rng \<Rightarrow> nat \<Rightarrow> nat \<Rightarrow> nat \<Rightarrow> element \<times> nat" where
  "make_element rnd i j pos =
     (let (r, pos1) = Math_random rnd pos;
          randomType = index shapeTypes (Math_floor (r * real (length shapeTypes)));
          (isRotating, pos2) =
             (if Array_includes rotating_types randomType
              then (let (r', p) = Math_random rnd pos1 in (r' > 7 / 10, p))
              else (False, pos1));
          (rd, pos3) = Math_random rnd pos2;
          (rt, pos4) = Math_random rnd pos3;
          (rl, pos5) = Math_random rnd pos4
      in (\<lparr>element_type = randomType,
           element_id = (i, randomType, j),
           delay = rd * 6,
           top = rt * 80 + 10,
           left = rl * 80 + 10,
           rotating = isRotating\<rparr>, pos5))"

text \<open>\<^verbatim>\<open>for (let j = 0; j < numElements; j++)\<close>, pushing onto \<open>cellElements\<close>.\<close>

function cell_loop :: "rng \<Rightarrow> nat \<Rightarrow> int \<Rightarrow> nat \<Rightarrow> element list \<Rightarrow> nat \<Rightarrow> element list \<times> nat" where
  "cell_loop rnd i numElements j cellElements pos =
     (if int j < numElements
      then (let (e, pos') = make_element rnd i j pos
            in cell_loop rnd i numElements (Suc j) (cellElements @ [e]) pos')
      else (cellElements, pos))"
  by pat_completeness auto
termination
  by (relation "measure (\<lambda>(rnd, i, numElements, j, cellElements, pos). nat (numElements - int j))")
     auto

declare cell_loop.simps [simp del]

definition make_cell :: "rng \<Rightarrow> nat \<Rightarrow> nat \<Rightarrow> cell \<times> nat" where
  "make_cell rnd i pos =
     (let (r, pos1) = Math_random rnd pos
      in if r > 8 / 10
         then (let (r', pos2) = Math_random rnd pos1;
                   numElements = Math_floor (r' * 2) + 1;
                   (cellElements, pos3) = cell_loop rnd i numElements 0 [] pos2
               in (\<lparr>cellId = i, elements = cellElements\<rparr>, pos3))
         else (\<lparr>cellId = i, elements = []\<rparr>, pos1))"

text \<open>\<^verbatim>\<open>Array.from({ length: n }, (_, i) => ...)\<close>: the callback runs for i = 0, 1, ... in order.\<close>

fun array_from :: "rng \<Rightarrow> nat \<Rightarrow> nat \<Rightarrow> nat \<Rightarrow> cell list" where
  "array_from rnd 0 i pos = []"
| "array_from rnd (Suc n) i pos =
     (let (c, pos') = make_cell rnd i pos in c # array_from rnd n (Suc i) pos')"

definition newElements :: "rng \<Rightarrow> cell list" where
  "newElements rnd = array_from rnd 300 0 0"

text \<open>An element as the grid is meant to hold it: of a listed shape type, not rotating.\<close>

definition plain :: "element \<Rightarrow> bool" where
  "plain e = (\<not> rotating e \<and> element_type e \<in> Some ` set shapeTypes)"

section \<open>App: the session state and the location handlers\<close>

record user_location =
  latitude :: real
  longitude :: real
  location_address :: "string option"

text \<open>
  The state hooks of the App component, together with the numbers of
  \<^verbatim>\<open>loadHospitals\<close> and \<^verbatim>\<open>loadPredictions\<close> requests that have been started and
  have not yet settled.
\<close>

record app_state =
  hospitals :: "hospital list"
  predictions :: predictions
  loading :: bool
  error :: "string option"
  userLocation :: "user_location option"
  locationSet :: bool
  hospitals_requests :: nat
  predictions_requests :: nat

text \<open>
  The parsed body of the answer to POST /api/location. A field the body need not carry
  is an option.
\<close>

record location_response =
  status :: string
  resp_user_location :: "user_location option"
  resp_hospitals :: "hospital list"
  resp_predictions :: "predictions option"
  resp_error :: "string option"

text \<open>The parsed bodies of the answers to GET /api/hospitals and GET /api/predictions.\<close>

record hospitals_response =
  body_hospitals :: "hospital list"

record predictions_response =
  body_predictions :: predictions

text \<open>
  How an awaited request ends: \<open>Rejected\<close> when \<^verbatim>\<open>fetch\<close> or \<^verbatim>\<open>response.json()\<close>
  throws, \<open>Resolved\<close> with the parsed body otherwise.
\<close>

datatype 'a fetched = Rejected | Resolved 'a

text \<open>\<^verbatim>\<open>s || d\<close> on a string field: the falsy values are an absent field and the empty string.\<close>

definition or_text :: "string option \<Rightarrow> string \<Rightarrow> string" where
  "or_text v d = (case v of None \<Rightarrow> d | Some s \<Rightarrow> if s = [] then d else s)"

subsection \<open>Requests\<close>

text \<open>
  A call of \<^verbatim>\<open>loadHospitals()\<close> or \<^verbatim>\<open>loadPredictions()\<close> runs up to its
  \<^verbatim>\<open>await fetch\<close>: it changes no state hook and leaves one more request in flight.
\<close>

definition loadHospitals_call :: "app_state \<Rightarrow> app_state" where
  "loadHospitals_call s = s\<lparr>hospitals_requests := Suc (hospitals_requests s)\<rparr>"

definition loadPredictions_call :: "app_state \<Rightarrow> app_state" where
  "loadPredictions_call s = s\<lparr>predictions_requests := Suc (predictions_requests s)\<rparr>"

text \<open>\<^verbatim>\<open>loadHospitals\<close> and \<^verbatim>\<open>loadPredictions\<close>, from the point where the request has ended.\<close>

definition loadHospitals :: "hospitals_response fetched \<Rightarrow> app_state \<Rightarrow> app_state" where
  "loadHospitals outcome s =
     (case outcome of
        Resolved data \<Rightarrow> s\<lparr>hospitals := body_hospitals data\<rparr>
      | Rejected \<Rightarrow> s\<lparr>error := Some ''Failed to load hospitals''\<rparr>)"

definition loadPredictions :: "predictions_response fetched \<Rightarrow> app_state \<Rightarrow> app_state" where
  "loadPredictions outcome s =
     (case outcome of
        Resolved data \<Rightarrow> s\<lparr>predictions := body_predictions data, loading := False\<rparr>
      | Rejected \<Rightarrow> s\<lparr>error := Some ''Failed to load predictions'', loading := False\<rparr>)"

subsection \<open>The effect on locationSet\<close>

text \<open>
  The body of \<^verbatim>\<open>useEffect(..., [locationSet])\<close>: with a location set it starts
  \<^verbatim>\<open>loadHospitals()\<close> and \<^verbatim>\<open>loadPredictions()\<close>, without one it ends the loading
  state.
\<close>

definition locationSet_effect :: "app_state \<Rightarrow> app_state" where
  "locationSet_effect s =
     (if locationSet s then loadPredictions_call (loadHospitals_call s)
      else s\<lparr>loading := False\<rparr>)"

text \<open>
  The effect runs after the first render, and after a render in which \<open>locationSet\<close>
  differs from its value at the render before. \<open>after_updates previous s\<close> is the state
  once the effects that follow a block of updates have run, \<open>previous\<close> being the flag
  before the block.
\<close>

definition after_updates :: "bool \<Rightarrow> app_state \<Rightarrow> app_state" where
  "after_updates previous s = (if locationSet s = previous then s else locationSet_effect s)"

subsection \<open>Blocks of state updates\<close>

text \<open>
  A handler is a sequence of calls of state setters and of request functions.
  \<open>states_after\<close> lists the state after each call, \<open>apply_updates\<close> is the state after
  the last one.
\<close>

fun states_after :: "(app_state \<Rightarrow> app_state) list \<Rightarrow> app_state \<Rightarrow> app_state list" where
  "states_after [] s = []"
| "states_after (u # us) s = u s # states_after us (u s)"

definition apply_updates :: "(app_state \<Rightarrow> app_state) list \<Rightarrow> app_state \<Rightarrow> app_state" where
  "apply_updates us s = foldl (\<lambda>t u. u t) s us"

text \<open>
  Which of these states are rendered depends on how the application is mounted, in an
  index file that is not among the sources. Both ways are covered: a root with automatic
  batching renders once after a block of updates; a legacy root renders after every
  single update of a block that runs after an \<^verbatim>\<open>await\<close>, as the location handlers do.
\<close>

datatype react_root = Batching_Root | Legacy_Root

definition rendered :: "react_root \<Rightarrow> app_state list \<Rightarrow> app_state list" where
  "rendered mode states =
     (case mode of
        Legacy_Root \<Rightarrow> states
      | Batching_Root \<Rightarrow> (if states = [] then [] else [last states]))"

text \<open>What App returns: the landing page, the loading page or the page with map and cards.\<close>

datatype screen = Landing_Page | Loading_Page | Hospitals_Page

definition App_screen :: "app_state \<Rightarrow> screen" where
  "App_screen s =
     (if \<not> locationSet s then Landing_Page
      else if loading s then Loading_Page
      else Hospitals_Page)"

subsection \<open>The location handlers\<close>

text \<open>
  The calls \<^verbatim>\<open>setLocation\<close> makes from the point where the awaited request has ended,
  in their order.
\<close>

definition setLocation_updates :: "location_response fetched \<Rightarrow> (app_state \<Rightarrow> app_state) list" where
  "setLocation_updates outcome =
     (case outcome of
        Rejected \<Rightarrow> [\<lambda>s. s\<lparr>error := Some ''Failed to set location''\<rparr>]
      | Resolved data \<Rightarrow>
          if status data = ''success''
          then [\<lambda>s. s\<lparr>userLocation := resp_user_location data\<rparr>,
                \<lambda>s. s\<lparr>hospitals := resp_hospitals data\<rparr>,
                \<lambda>s. s\<lparr>locationSet := True\<rparr>,
                \<lambda>s. s\<lparr>loading := False\<rparr>] @
               (case resp_predictions data of
                  Some p \<Rightarrow> [\<lambda>s. s\<lparr>predictions := p\<rparr>]
                | None \<Rightarrow> [loadPredictions_call])
          else [\<lambda>s. s\<lparr>error := Some (or_text (resp_error data) ''Failed to set location'')\<rparr>])"

text \<open>
  \<^verbatim>\<open>setLocation\<close>: the state after the handler's calls and after the effect on
  \<open>locationSet\<close> that follows them, together with a flag telling whether the handler
  itself has called \<^verbatim>\<open>loadPredictions()\<close>.
\<close>

definition setLocation :: "location_response fetched \<Rightarrow> app_state \<Rightarrow> app_state \<times> bool" where
  "setLocation outcome s =
     (after_updates (locationSet s) (apply_updates (setLocation_updates outcome) s),
      (case outcome of
         Rejected \<Rightarrow> False
       | Resolved data \<Rightarrow> status data = ''success'' \<and> resp_predictions data = None))"

text \<open>The calls \<^verbatim>\<open>handleLocationSet\<close> makes, in their order.\<close>

definition handleLocationSet_updates :: "location_response \<Rightarrow> (app_state \<Rightarrow> app_state) list" where
  "handleLocationSet_updates locationData =
     [\<lambda>s. s\<lparr>userLocation := resp_user_location locationData\<rparr>,
      \<lambda>s. s\<lparr>hospitals := resp_hospitals locationData\<rparr>,
      \<lambda>s. s\<lparr>locationSet := True\<rparr>,
      \<lambda>s. s\<lparr>loading := False\<rparr>] @
     (case resp_predictions locationData of
        Some p \<Rightarrow> [\<lambda>s. s\<lparr>predictions := p\<rparr>]
      | None \<Rightarrow> [loadPredictions_call])"

definition handleLocationSet_states :: "location_response \<Rightarrow> app_state \<Rightarrow> app_state list" where
  "handleLocationSet_states locationData s =
     states_after (handleLocationSet_updates locationData) s"

text \<open>
  \<^verbatim>\<open>handleLocationSet\<close>: the state after the handler's calls and after the effect on
  \<open>locationSet\<close> that follows them, together with a flag telling whether the handler
  itself has called \<^verbatim>\<open>loadPredictions()\<close>.
\<close>

definition handleLocationSet :: "location_response \<Rightarrow> app_state \<Rightarrow> app_state \<times> bool" where
  "handleLocationSet locationData s =
     (after_updates (locationSet s) (apply_updates (handleLocationSet_updates locationData) s),
      resp_predictions locationData = None)"

text \<open>
  What \<^verbatim>\<open>handleSubmit\<close> and the geolocation callback of LocationInput pass to
  \<^verbatim>\<open>onLocationSet\<close>, if they call it: the body of an answer with status success. Every
  other outcome ends in an \<^verbatim>\<open>alert\<close>.
\<close>

definition LocationInput_onLocationSet :: "location_response fetched \<Rightarrow> location_response option" where
  "LocationInput_onLocationSet outcome =
     (case outcome of
        Rejected \<Rightarrow> None
      | Resolved data \<Rightarrow> if status data = ''success'' then Some data else None)"

subsection \<open>The runs of the component\<close>

text \<open>The values the state hooks start with, and the state after the first render's effect.\<close>

definition initial_state :: app_state where
  "initial_state =
     \<lparr>hospitals = [], predictions = [], loading = True, error = None,
      userLocation = None, locationSet = False,
      hospitals_requests = 0, predictions_requests = 0\<rparr>"

definition mounted_state :: app_state where
  "mounted_state = locationSet_effect initial_state"

text \<open>
  What can happen to the mounted component: the request of LocationInput ends, or one of
  the requests in flight settles. LocationInput is the only caller of
  \<^verbatim>\<open>handleLocationSet\<close>; App renders it only while \<open>locationSet\<close> is false, and it
  disables its controls while its request is pending, so its request ends in a state
  without a location. \<^verbatim>\<open>setLocation\<close> has no caller. A step that cannot happen in a
  state is \<open>None\<close>.
\<close>

datatype event =
    Location_Answer "location_response fetched"
  | Hospitals_Settled "hospitals_response fetched"
  | Predictions_Settled "predictions_response fetched"

definition step :: "event \<Rightarrow> app_state \<Rightarrow> app_state option" where
  "step ev s =
     (case ev of
        Location_Answer outcome \<Rightarrow>
          if locationSet s then None
          else (case LocationInput_onLocationSet outcome of
                  None \<Rightarrow> Some s
                | Some data \<Rightarrow> Some (fst (handleLocationSet data s)))
      | Hospitals_Settled outcome \<Rightarrow>
          if hospitals_requests s = 0 then None
          else Some (loadHospitals outcome (s\<lparr>hospitals_requests := hospitals_requests s - 1\<rparr>))
      | Predictions_Settled outcome \<Rightarrow>
          if predictions_requests s = 0 then None
          else Some (loadPredictions outcome
                       (s\<lparr>predictions_requests := predictions_requests s - 1\<rparr>)))"

fun run :: "event list \<Rightarrow> app_state \<Rightarrow> app_state option" where
  "run [] s = Some s"
| "run (ev # evs) s = (case step ev s of None \<Rightarrow> None | Some t \<Rightarrow> run evs t)"

text \<open>
  What a state shows: the screen, the ids of the hospitals in the list, and the hospital
  ids that have an entry in the predictions map.
\<close>

definition shown :: "app_state \<Rightarrow> screen \<times> string list \<times> string list" where
  "shown s = (App_screen s, map hospital_id (hospitals s), Object_keys (predictions s))"

section \<open>PredictionCards: the street-cam note\<close>

text \<open>
  The analysis object of the street-cam answer. Each field holds the text that the
  template literal interpolates for it (the string conversion of the field's value,
  \<^verbatim>\<open>undefined\<close> for an absent field).
\<close>

record analysis =
  traffic_level :: string
  estimated_cars :: string
  analysis_confidence :: string

record insight =
  insight_analysis :: "analysis option"

record street_cam_response =
  cam_status :: string
  cam_insight :: "insight option"

text \<open>The bullet character of the note, as its three UTF-8 bytes.\<close>

definition bullet :: string where
  "bullet = [CHR 0xE2, CHR 0x80, CHR 0xA2]"

definition cam_note_text :: "analysis \<Rightarrow> string" where
  "cam_note_text a =
     ''street cam vibe: '' @ traffic_level a @ '' '' @ bullet @ '' ~'' @ estimated_cars a @
     '' cars '' @ bullet @ '' conf '' @ analysis_confidence a @ ''%''"

text \<open>
  The argument of the call of \<^verbatim>\<open>setCamNote\<close>, if \<^verbatim>\<open>pingStreetCam\<close> makes one. The
  body is \<open>None\<close> when it parses to \<^verbatim>\<open>null\<close>. Reading \<^verbatim>\<open>data.insight.analysis\<close>
  or a field of it throws when \<^verbatim>\<open>insight\<close> or \<^verbatim>\<open>analysis\<close> is absent; every
  exception ends in the empty \<^verbatim>\<open>catch\<close>.
\<close>

definition pingStreetCam_call :: "street_cam_response option fetched \<Rightarrow> string option" where
  "pingStreetCam_call outcome =
     (case outcome of
        Rejected \<Rightarrow> None
      | Resolved None \<Rightarrow> None
      | Resolved (Some data) \<Rightarrow>
          if cam_status data = ''ok''
          then (case cam_insight data of
                  None \<Rightarrow> None
                | Some i \<Rightarrow>
                    (case insight_analysis i of
                       None \<Rightarrow> None
                     | Some a \<Rightarrow> Some (cam_note_text a)))
          else None)"

text \<open>The state \<open>camNote\<close> after \<^verbatim>\<open>pingStreetCam\<close> has run to its end.\<close>

definition pingStreetCam :: "street_cam_response option fetched \<Rightarrow> string option \<Rightarrow> string option" where
  "pingStreetCam outcome camNote =
     (case pingStreetCam_call outcome of None \<Rightarrow> camNote | Some note \<Rightarrow> Some note)"

section \<open>The prediction engine\<close>

text \<open>
  Modelled from the spec: the prediction engine (prediction_engine_anthropic.py in the
  project structure) is not among the sources; \<open>predict\<close>, its fallback heuristic and
  the derivation of the recommendation follow sections 3, 4.3 and 8 of the specification.
  The constants of the heuristic, which the specification leaves open, are parameters, as
  are the tests for adverse weather, heavy traffic and peak hours and the parser of the
  provider's text.
\<close>

datatype prediction_method_tag = AI | Fallback

datatype recommendation_label = Go_Now | Wait | Consider_Alternatives

record environmental_context =
  weather :: string
  traffic :: string
  time_of_day :: nat
  day_of_week :: nat

record heuristic_config =
  base_wait :: nat
  adverse_weather :: "string \<Rightarrow> bool"
  weather_minutes :: nat
  heavy_traffic :: "string \<Rightarrow> bool"
  traffic_minutes :: nat
  peak_hours :: "nat \<Rightarrow> bool"
  peak_minutes :: nat
  fallback_confidence :: nat

record engine_prediction =
  engine_hospital_id :: string
  wait_time :: int
  engine_confidence :: nat
  engine_factors :: "string list"
  engine_recommendation :: recommendation_label
  engine_method :: prediction_method_tag

text \<open>What the parser finds in a well-formed answer of the provider.\<close>

record parsed_answer =
  parsed_wait_time :: int
  parsed_confidence :: nat
  parsed_factors :: "string list"

datatype ai_outcome = Provider_Error | Text string

text \<open>
  Modelled from the spec: the recommendation derived from a wait time (section 8: below
  30 Go Now, from 30 up to but excluding 60 Wait, from 60 on Consider Alternatives).
\<close>

definition derive_recommendation :: "int \<Rightarrow> recommendation_label" where
  "derive_recommendation w =
     (if w < 30 then Go_Now else if w < 60 then Wait else Consider_Alternatives)"

text \<open>
  Modelled from the spec: the fallback heuristic (section 4.3), the base wait time plus
  the additions for adverse weather, heavy traffic and the time of day.
\<close>

definition heuristic_wait :: "heuristic_config \<Rightarrow> environmental_context \<Rightarrow> int" where
  "heuristic_wait cfg ctx =
     int (base_wait cfg)
     + (if adverse_weather cfg (weather ctx) then int (weather_minutes cfg) else 0)
     + (if heavy_traffic cfg (traffic ctx) then int (traffic_minutes cfg) else 0)
     + (if peak_hours cfg (time_of_day ctx) then int (peak_minutes cfg) else 0)"

text \<open>
  Modelled from the spec: the prediction built from the heuristic, tagged with the
  fallback method.
\<close>

definition fallback_prediction ::
  "heuristic_config \<Rightarrow> hospital \<Rightarrow> environmental_context \<Rightarrow> engine_prediction" where
  "fallback_prediction cfg h ctx =
     (let w = heuristic_wait cfg ctx
      in \<lparr>engine_hospital_id = hospital_id h,
          wait_time = w,
          engine_confidence = fallback_confidence cfg,
          engine_factors = [],
          engine_recommendation = derive_recommendation w,
          engine_method = Fallback\<rparr>)"

text \<open>
  Modelled from the spec: \<open>predict\<close> (section 4.3). The outcome of the call of the
  generative-AI adapter is an argument; an error of the provider and a text without a
  parseable wait time both lead to the fallback.
\<close>

definition predict ::
  "heuristic_config \<Rightarrow> (string \<Rightarrow> parsed_answer option) \<Rightarrow> ai_outcome \<Rightarrow>
   hospital \<Rightarrow> environmental_context \<Rightarrow> engine_prediction" where
  "predict cfg parse outcome h ctx =
     (case outcome of
        Provider_Error \<Rightarrow> fallback_prediction cfg h ctx
      | Text t \<Rightarrow>
          (case parse t of
             None \<Rightarrow> fallback_prediction cfg h ctx
           | Some a \<Rightarrow>
               \<lparr>engine_hospital_id = hospital_id h,
                wait_time = parsed_wait_time a,
                engine_confidence = parsed_confidence a,
                engine_factors = parsed_factors a,
                engine_recommendation = derive_recommendation (parsed_wait_time a),
                engine_method = AI\<rparr>))"

section \<open>Values used in the examples\<close>

definition demo_hospital :: "string \<Rightarrow> hospital" where
  "demo_hospital i =
     \<lparr>hospital_id = i, name = ''General'', address = None,
      coordinates = (40, - 74), rating = None, distance_miles = None\<rparr>"

definition demo_prediction :: "real option \<Rightarrow> prediction" where
  "demo_prediction w =
     \<lparr>current_wait_time = w, confidence = None, factors = None,
      recommendation = None, prediction_method = None\<rparr>"

definition demo_state :: app_state where
  "demo_state =
     \<lparr>hospitals = [demo_hospital ''old''],
      predictions = [(''old'', demo_prediction (Some 45))],
      loading = False, error = None, userLocation = None, locationSet = True,
      hospitals_requests = 0, predictions_requests = 0\<rparr>"

definition demo_response :: "string \<Rightarrow> predictions option \<Rightarrow> location_response" where
  "demo_response st p =
     \<lparr>status = st, resp_user_location = None, resp_hospitals = [demo_hospital ''new''],
      resp_predictions = p, resp_error = Some ''Location not found''\<rparr>"

definition demo_answer :: "predictions option \<Rightarrow> location_response fetched" where
  "demo_answer p = Resolved (demo_response ''success'' p)"

definition demo_new_predictions :: predictions where
  "demo_new_predictions = [(''new'', demo_prediction (Some 20))]"

definition demo_config :: heuristic_config where
  "demo_config =
     \<lparr>base_wait = 30,
      adverse_weather = (\<lambda>w. w = ''storm''), weather_minutes = 10,
      heavy_traffic = (\<lambda>t. t = ''heavy''), traffic_minutes = 15,
      peak_hours = (\<lambda>h. 17 \<le> h \<and> h < 21), peak_minutes = 20,
      fallback_confidence = 50\<rparr>"

definition demo_context :: environmental_context where
  "demo_context = \<lparr>weather = ''storm'', traffic = ''heavy'', time_of_day = 9, day_of_week = 2\<rparr>"

definition demo_predictions :: predictions where
  "demo_predictions = [(''h1'', demo_prediction (Some 45)), (''h2'', demo_prediction (Some 20))]"

definition demo_changes :: "(nat \<times> predictions) list" where
  "demo_changes =
     [(0, []), (1, demo_predictions), (2, demo_predictions), (3, demo_predictions),
      (4, demo_predictions), (5, demo_predictions), (6, demo_predictions),
      (7, demo_predictions), (8, demo_predictions), (9, demo_predictions),
      (10, demo_predictions), (11, demo_predictions)]"

definition demo_rnd :: rng where
  "demo_rnd = (\<lambda>k. 9 / 10)"

section \<open>Properties of the bucketing\<close>

text \<open>
  C2. For every wait time \<open>w\<close>: below 30 the marker is green and the card is classed
  low and labelled Low wait; from 30 up to but excluding 60 the marker is amber and the
  card is medium, Medium wait; from 60 on the marker is red and the card is high,
  High wait. The colour function, both class functions and the label function therefore
  pick the same bucket for every \<open>w\<close>.
\<close>

theorem bucket_mapping:
  "(w < 30 \<longrightarrow>
      getWaitTimeColor w = ''#10b981'' \<and> HospitalMap_getWaitTimeClass w = ''low'' \<and>
      getWaitTimeClass w = ''low'' \<and> getWaitTimeLabel w = ''Low wait'') \<and>
   (30 \<le> w \<and> w < 60 \<longrightarrow>
      getWaitTimeColor w = ''#f59e0b'' \<and> HospitalMap_getWaitTimeClass w = ''medium'' \<and>
      getWaitTimeClass w = ''medium'' \<and> getWaitTimeLabel w = ''Medium wait'') \<and>
   (60 \<le> w \<longrightarrow>
      getWaitTimeColor w = ''#dc2626'' \<and> HospitalMap_getWaitTimeClass w = ''high'' \<and>
      getWaitTimeClass w = ''high'' \<and> getWaitTimeLabel w = ''High wait'')"
  by (simp add: getWaitTimeColor_def HospitalMap_getWaitTimeClass_def
      getWaitTimeClass_def getWaitTimeLabel_def)

theorem bucket_mapping_witness:
  "(10::real) < 30 \<and> getWaitTimeColor 10 = ''#10b981'' \<and> getWaitTimeLabel 10 = ''Low wait'' \<and>
   (30::real) \<le> 45 \<and> (45::real) < 60 \<and> getWaitTimeColor 45 = ''#f59e0b'' \<and>
   getWaitTimeClass 45 = ''medium'' \<and>
   (60::real) \<le> 75 \<and> getWaitTimeColor 75 = ''#dc2626'' \<and> getWaitTimeLabel 75 = ''High wait''"
  using bucket_mapping [of 10] bucket_mapping [of 45] bucket_mapping [of 75]
  by simp

text \<open>
  C1. At exactly 60 minutes the marker is red and the card is classed high and labelled
  High wait, although the legend of the same map explains red as High wait (>60 min).
\<close>

theorem sixty_is_high:
  "getWaitTimeColor 60 = ''#dc2626'' \<and>
   HospitalMap_getWaitTimeClass 60 = ''high'' \<and>
   getWaitTimeClass 60 = ''high'' \<and>
   getWaitTimeLabel 60 = ''High wait'' \<and>
   map_of legend (getWaitTimeColor 60) = Some ''High wait (>60 min)''"
  by (simp add: getWaitTimeColor_def HospitalMap_getWaitTimeClass_def
      getWaitTimeClass_def getWaitTimeLabel_def legend_def)

text \<open>
  C8. For every hospital of the list that has no entry in the predictions object, or
  whose prediction has no current_wait_time or a current_wait_time of 0, the card and the
  marker rendered for it show 30 minutes, classed medium and coloured amber.
\<close>

theorem missing_or_zero_wait_shows_30:
  assumes "i < length hs"
    and "lookup preds (hospital_id (hs ! i)) = None \<or>
         (\<exists>p. lookup preds (hospital_id (hs ! i)) = Some p \<and>
              (current_wait_time p = None \<or> current_wait_time p = Some 0))"
  shows "card_key (PredictionCards_cards preds hs ! i) = hospital_id (hs ! i) \<and>
         card_currentWait (PredictionCards_cards preds hs ! i) = 30 \<and>
         card_waitClass (PredictionCards_cards preds hs ! i) = ''medium'' \<and>
         card_className (PredictionCards_cards preds hs ! i) = ''prediction-card medium-wait'' \<and>
         marker_key (HospitalMap_markers preds hs ! i) = hospital_id (hs ! i) \<and>
         marker_waitTime (HospitalMap_markers preds hs ! i) = 30 \<and>
         marker_color (HospitalMap_markers preds hs ! i) = ''#f59e0b''"
proof -
  from assms(2)
  have "or_default (opt_current_wait_time (lookup preds (hospital_id (hs ! i)))) 30 = 30"
    by (auto simp: or_default_def opt_current_wait_time_def)
  with assms(1) show ?thesis
    by (simp add: PredictionCards_cards_def HospitalMap_markers_def PredictionCards_card_def
        HospitalMap_marker_def Let_def getWaitTimeClass_def getWaitTimeColor_def)
qed

theorem missing_or_zero_wait_shows_30_witness:
  "(0::nat) < length [demo_hospital ''h1''] \<and>
   lookup [(''h1'', demo_prediction (Some 0))] (hospital_id ([demo_hospital ''h1''] ! 0)) =
     Some (demo_prediction (Some 0)) \<and>
   current_wait_time (demo_prediction (Some 0)) = Some 0 \<and>
   card_currentWait
     (PredictionCards_cards [(''h1'', demo_prediction (Some 0))] [demo_hospital ''h1''] ! 0) = 30 \<and>
   marker_color
     (HospitalMap_markers [(''h1'', demo_prediction (Some 0))] [demo_hospital ''h1''] ! 0) =
     ''#f59e0b''"
proof -
  let ?preds = "[(''h1'', demo_prediction (Some 0))]"
  let ?hs = "[demo_hospital ''h1'']"
  have i: "(0::nat) < length ?hs"
    by simp
  have h: "lookup ?preds (hospital_id (?hs ! 0)) = Some (demo_prediction (Some 0))"
    by (simp add: lookup_def demo_hospital_def)
  have z: "current_wait_time (demo_prediction (Some 0)) = Some 0"
    by (simp add: demo_prediction_def)
  from h z have c: "lookup ?preds (hospital_id (?hs ! 0)) = None \<or>
      (\<exists>p. lookup ?preds (hospital_id (?hs ! 0)) = Some p \<and>
           (current_wait_time p = None \<or> current_wait_time p = Some 0))"
    by blast
  from i h z missing_or_zero_wait_shows_30 [OF i c]
  show ?thesis by blast
qed

section \<open>Properties of the session state\<close>

lemma apply_updates_last: "apply_updates us s = last (s # states_after us s)"
  unfolding apply_updates_def by (induction us arbitrary: s) simp_all

lemma rendered_subset: "set (rendered mode states) \<subseteq> set states"
  by (cases mode) (auto simp: rendered_def)

lemma step_no_location:
  assumes "step ev s = Some t"
    and "\<not> locationSet s \<longrightarrow>
           hospitals s = [] \<and> predictions s = [] \<and>
           hospitals_requests s = 0 \<and> predictions_requests s = 0"
  shows "\<not> locationSet t \<longrightarrow>
           hospitals t = [] \<and> predictions t = [] \<and>
           hospitals_requests t = 0 \<and> predictions_requests t = 0"
  using assms
  by (auto simp: step_def LocationInput_onLocationSet_def handleLocationSet_def
      handleLocationSet_updates_def apply_updates_def after_updates_def locationSet_effect_def
      loadHospitals_call_def loadPredictions_call_def loadHospitals_def loadPredictions_def
      split: event.splits fetched.splits option.splits if_splits)

lemma run_no_location:
  "run evs s = Some t \<Longrightarrow>
   (\<not> locationSet s \<longrightarrow>
      hospitals s = [] \<and> predictions s = [] \<and>
      hospitals_requests s = 0 \<and> predictions_requests s = 0) \<Longrightarrow>
   (\<not> locationSet t \<longrightarrow>
      hospitals t = [] \<and> predictions t = [] \<and>
      hospitals_requests t = 0 \<and> predictions_requests t = 0)"
proof (induction evs arbitrary: s)
  case Nil
  then show ?case by simp
next
  case (Cons ev evs)
  from Cons.prems(1) obtain u where u: "step ev s = Some u" and r: "run evs u = Some t"
    by (auto split: option.splits)
  from step_no_location [OF u Cons.prems(2)] Cons.IH [OF r] show ?case by blast
qed

lemma reachable_without_location:
  assumes "run evs mounted_state = Some s" and "\<not> locationSet s"
  shows "hospitals s = [] \<and> predictions s = []"
proof -
  have "\<not> locationSet mounted_state \<longrightarrow>
      hospitals mounted_state = [] \<and> predictions mounted_state = [] \<and>
      hospitals_requests mounted_state = 0 \<and> predictions_requests mounted_state = 0"
    by (simp add: mounted_state_def initial_state_def locationSet_effect_def)
  from run_no_location [OF assms(1) this] assms(2) show ?thesis by blast
qed

lemma step_with_location:
  assumes "step ev s = Some t" and "locationSet s"
  shows "locationSet t \<and> (\<forall>x. ev \<noteq> Location_Answer x) \<and>
         (predictions t = predictions s \<or>
          (\<exists>r. ev = Predictions_Settled (Resolved r) \<and> predictions t = body_predictions r)) \<and>
         (hospitals t = hospitals s \<or>
          (\<exists>r. ev = Hospitals_Settled (Resolved r) \<and> hospitals t = body_hospitals r))"
  using assms
  by (auto simp: step_def loadHospitals_def loadPredictions_def
      split: event.splits fetched.splits if_splits)

lemma run_with_location:
  "run evs s = Some t \<Longrightarrow> locationSet s \<Longrightarrow>
   locationSet t \<and> (\<forall>ev \<in> set evs. \<forall>x. ev \<noteq> Location_Answer x) \<and>
   (predictions t = predictions s \<or>
    (\<exists>r. Predictions_Settled (Resolved r) \<in> set evs \<and> predictions t = body_predictions r)) \<and>
   (hospitals t = hospitals s \<or>
    (\<exists>r. Hospitals_Settled (Resolved r) \<in> set evs \<and> hospitals t = body_hospitals r))"
proof (induction evs arbitrary: s)
  case Nil
  then show ?case by simp
next
  case (Cons ev evs)
  from Cons.prems(1) obtain u where u: "step ev s = Some u" and r: "run evs u = Some t"
    by (auto split: option.splits)
  note a = step_with_location [OF u Cons.prems(2)]
  then have "locationSet u" by blast
  note b = Cons.IH [OF r this]
  from b have 1: "locationSet t" by blast
  from a b have 2: "\<forall>e \<in> set (ev # evs). \<forall>x. e \<noteq> Location_Answer x" by simp
  have 3: "predictions t = predictions s \<or>
      (\<exists>r. Predictions_Settled (Resolved r) \<in> set (ev # evs) \<and>
           predictions t = body_predictions r)"
  proof (cases "\<exists>r. Predictions_Settled (Resolved r) \<in> set evs \<and>
      predictions t = body_predictions r")
    case True
    then show ?thesis by auto
  next
    case False
    with b have "predictions t = predictions u" by blast
    with a show ?thesis by auto
  qed
  have 4: "hospitals t = hospitals s \<or>
      (\<exists>r. Hospitals_Settled (Resolved r) \<in> set (ev # evs) \<and> hospitals t = body_hospitals r)"
  proof (cases "\<exists>r. Hospitals_Settled (Resolved r) \<in> set evs \<and>
      hospitals t = body_hospitals r")
    case True
    then show ?thesis by auto
  next
    case False
    with b have "hospitals t = hospitals u" by blast
    with a show ?thesis by auto
  qed
  from 1 2 3 4 show ?case by blast
qed

lemma handleLocationSet_final:
  assumes "\<not> locationSet s"
  shows "hospitals (fst (handleLocationSet data s)) = resp_hospitals data"
    and "predictions (fst (handleLocationSet data s)) =
           (case resp_predictions data of Some p \<Rightarrow> p | None \<Rightarrow> predictions s)"
    and "locationSet (fst (handleLocationSet data s))"
    and "\<not> loading (fst (handleLocationSet data s))"
    and "hospitals_requests (fst (handleLocationSet data s)) = Suc (hospitals_requests s)"
    and "predictions_requests (fst (handleLocationSet data s)) =
           (if resp_predictions data = None then Suc (Suc (predictions_requests s))
            else Suc (predictions_requests s))"
  using assms
  by (simp_all add: handleLocationSet_def handleLocationSet_updates_def apply_updates_def
      after_updates_def locationSet_effect_def loadHospitals_call_def loadPredictions_call_def
      split: option.splits)

lemma handleLocationSet_between:
  assumes "\<not> locationSet s" and "s' \<in> set (handleLocationSet_states data s)"
    and "App_screen s' = Hospitals_Page"
  shows "hospitals s' = resp_hospitals data \<and>
         (predictions s' = predictions s \<or> resp_predictions data = Some (predictions s'))"
  using assms
  by (auto simp: handleLocationSet_states_def handleLocationSet_updates_def App_screen_def
      loadPredictions_call_def split: option.splits if_splits)

lemma handleLocationSet_batched:
  assumes "resp_predictions data = Some p"
    and "s' \<in> set (rendered Batching_Root (handleLocationSet_states data s))"
  shows "hospitals s' = resp_hospitals data \<and> predictions s' = p"
  using assms
  by (simp add: rendered_def handleLocationSet_states_def handleLocationSet_updates_def)

text \<open>
  C3, as stated, fails. From the mounted component, a successful answer that carries no
  predictions brings up the hospitals page with the new hospital and a predictions map
  that has not been replaced; the map stays so when the requests in flight fail. With an
  answer that carries predictions, a legacy root renders the new hospital on the hospitals
  page before the handler has replaced the predictions map.
\<close>

theorem new_hospitals_rendered_before_predictions:
  "map_option shown (run [Location_Answer (demo_answer None)] mounted_state) =
     Some (Hospitals_Page, [''new''], []) \<and>
   map_option predictions (run [Location_Answer (demo_answer None)] mounted_state) =
     Some (predictions mounted_state) \<and>
   map_option shown
     (run [Location_Answer (demo_answer None), Predictions_Settled Rejected,
           Hospitals_Settled Rejected, Predictions_Settled Rejected] mounted_state) =
     Some (Hospitals_Page, [''new''], []) \<and>
   map shown
     (rendered Legacy_Root
        (handleLocationSet_states (demo_response ''success'' (Some demo_new_predictions))
           mounted_state)) =
     [(Landing_Page, [], []), (Landing_Page, [''new''], []), (Hospitals_Page, [''new''], []),
      (Hospitals_Page, [''new''], []), (Hospitals_Page, [''new''], [''new''])]"
  by (simp add: step_def LocationInput_onLocationSet_def demo_answer_def demo_response_def
      demo_hospital_def demo_new_predictions_def mounted_state_def initial_state_def
      handleLocationSet_def handleLocationSet_states_def handleLocationSet_updates_def
      apply_updates_def after_updates_def locationSet_effect_def loadHospitals_call_def
      loadPredictions_call_def loadHospitals_def loadPredictions_def shown_def App_screen_def
      rendered_def Object_keys_def)

text \<open>
  C3, amended. The location handler runs only in a state without a location, and in every
  such state the component can reach the hospitals list and the predictions map are
  empty: there are no predictions of a prior location. The handler replaces the hospitals
  list before the hospitals page is rendered, under either root, and on every rendered
  hospitals page the predictions map is empty or the answer's own. When the answer carries
  predictions, the handler replaces the map as well, before the first render under a root
  with automatic batching. When it carries none, the map stays empty. In every state
  that follows, no location handler runs again, the predictions map is the one the
  handler left or the answer of a GET /api/predictions that settled after the
  relocation, and the hospitals list is the answer's or that of a GET /api/hospitals
  that settled after it.
\<close>

theorem relocation_replaces_state:
  assumes "run evs mounted_state = Some s" and "\<not> locationSet s"
    and "status data = ''success''"
  shows "hospitals s = [] \<and> predictions s = [] \<and>
         step (Location_Answer (Resolved data)) s = Some (fst (handleLocationSet data s)) \<and>
         App_screen (fst (handleLocationSet data s)) = Hospitals_Page \<and>
         hospitals (fst (handleLocationSet data s)) = resp_hospitals data \<and>
         predictions (fst (handleLocationSet data s)) =
           (case resp_predictions data of Some p \<Rightarrow> p | None \<Rightarrow> []) \<and>
         (\<forall>mode. \<forall>s' \<in> set (rendered mode (handleLocationSet_states data s)).
            App_screen s' = Hospitals_Page \<longrightarrow>
              hospitals s' = resp_hospitals data \<and>
              (predictions s' = [] \<or> resp_predictions data = Some (predictions s'))) \<and>
         (\<forall>p. resp_predictions data = Some p \<longrightarrow>
            (\<forall>s' \<in> set (rendered Batching_Root (handleLocationSet_states data s)).
               hospitals s' = resp_hospitals data \<and> predictions s' = p)) \<and>
         (\<forall>evs' t. run evs' (fst (handleLocationSet data s)) = Some t \<longrightarrow>
            locationSet t \<and>
            (\<forall>ev \<in> set evs'. \<forall>x. ev \<noteq> Location_Answer x) \<and>
            (predictions t = [] \<or> resp_predictions data = Some (predictions t) \<or>
             (\<exists>r. Predictions_Settled (Resolved r) \<in> set evs' \<and>
                  predictions t = body_predictions r)) \<and>
            (hospitals t = resp_hospitals data \<or>
             (\<exists>r. Hospitals_Settled (Resolved r) \<in> set evs' \<and>
                  hospitals t = body_hospitals r)))"
proof -
  let ?h = "fst (handleLocationSet data s)"
  note empty = reachable_without_location [OF assms(1,2)]
  have st: "step (Location_Answer (Resolved data)) s = Some ?h"
    using assms(2,3) by (simp add: step_def LocationInput_onLocationSet_def)
  note fin = handleLocationSet_final [OF assms(2), of data]
  have scr: "App_screen ?h = Hospitals_Page"
    using fin(3,4) by (simp add: App_screen_def)
  have preds: "predictions ?h = (case resp_predictions data of Some p \<Rightarrow> p | None \<Rightarrow> [])"
    using fin(2) empty by (simp split: option.splits)
  have between: "\<forall>mode. \<forall>s' \<in> set (rendered mode (handleLocationSet_states data s)).
      App_screen s' = Hospitals_Page \<longrightarrow>
        hospitals s' = resp_hospitals data \<and>
        (predictions s' = [] \<or> resp_predictions data = Some (predictions s'))"
    using handleLocationSet_between [OF assms(2), of _ data] rendered_subset empty
    by (metis subsetD)
  have batched: "\<forall>p. resp_predictions data = Some p \<longrightarrow>
      (\<forall>s' \<in> set (rendered Batching_Root (handleLocationSet_states data s)).
         hospitals s' = resp_hospitals data \<and> predictions s' = p)"
    using handleLocationSet_batched by blast
  have later: "locationSet t \<and>
      (\<forall>ev \<in> set evs'. \<forall>x. ev \<noteq> Location_Answer x) \<and>
      (predictions t = [] \<or> resp_predictions data = Some (predictions t) \<or>
       (\<exists>r. Predictions_Settled (Resolved r) \<in> set evs' \<and>
            predictions t = body_predictions r)) \<and>
      (hospitals t = resp_hospitals data \<or>
       (\<exists>r. Hospitals_Settled (Resolved r) \<in> set evs' \<and> hospitals t = body_hospitals r))"
    if "run evs' ?h = Some t" for evs' t
  proof -
    note r = run_with_location [OF that fin(3)]
    have "predictions ?h = [] \<or> resp_predictions data = Some (predictions ?h)"
      using preds by (simp split: option.splits)
    with r fin(1) show ?thesis by metis
  qed
  from empty st scr fin(1) preds between batched later show ?thesis by blast
qed

theorem relocation_replaces_state_witness:
  "run [] mounted_state = Some mounted_state \<and>
   \<not> locationSet mounted_state \<and>
   status (demo_response ''success'' (Some demo_new_predictions)) = ''success'' \<and>
   step (Location_Answer (Resolved (demo_response ''success'' (Some demo_new_predictions))))
      mounted_state =
     Some (fst (handleLocationSet (demo_response ''success'' (Some demo_new_predictions))
                  mounted_state)) \<and>
   hospitals (fst (handleLocationSet (demo_response ''success'' (Some demo_new_predictions))
                     mounted_state)) = [demo_hospital ''new''] \<and>
   predictions (fst (handleLocationSet (demo_response ''success'' (Some demo_new_predictions))
                       mounted_state)) = demo_new_predictions"
proof -
  let ?d = "demo_response ''success'' (Some demo_new_predictions)"
  have a: "run [] mounted_state = Some mounted_state"
    by simp
  have b: "\<not> locationSet mounted_state"
    by (simp add: mounted_state_def initial_state_def locationSet_effect_def)
  have c: "status ?d = ''success''"
    by (simp add: demo_response_def)
  have d: "resp_hospitals ?d = [demo_hospital ''new'']"
    "resp_predictions ?d = Some demo_new_predictions"
    by (simp_all add: demo_response_def)
  note t = relocation_replaces_state [OF a b c]
  from t have 1: "step (Location_Answer (Resolved ?d)) mounted_state =
      Some (fst (handleLocationSet ?d mounted_state))"
    by blast
  from t have "hospitals (fst (handleLocationSet ?d mounted_state)) = resp_hospitals ?d"
    by blast
  with d have 2: "hospitals (fst (handleLocationSet ?d mounted_state)) = [demo_hospital ''new'']"
    by simp
  from t have "predictions (fst (handleLocationSet ?d mounted_state)) =
      (case resp_predictions ?d of Some p \<Rightarrow> p | None \<Rightarrow> [])"
    by blast
  with d have 3: "predictions (fst (handleLocationSet ?d mounted_state)) = demo_new_predictions"
    by simp
  from a b c 1 2 3 show ?thesis by blast
qed

text \<open>
  C5. When the answer to POST /api/location has a status other than success, the only
  state update is the error message: the \<open>error\<close> of the answer, or the text
  Failed to set location when the answer has none. The hospitals list, the predictions
  map, the user location and the locationSet flag keep their values, and no further
  request is started.
\<close>

theorem failed_relocation_keeps_state:
  assumes "status data \<noteq> ''success''"
  shows "setLocation (Resolved data) s =
           (s\<lparr>error := Some (or_text (resp_error data) ''Failed to set location'')\<rparr>, False) \<and>
         (\<forall>m. resp_error data = Some m \<and> m \<noteq> [] \<longrightarrow>
            error (fst (setLocation (Resolved data) s)) = Some m) \<and>
         error (fst (setLocation (Resolved data) s)) \<noteq> None \<and>
         error (fst (setLocation (Resolved data) s)) \<noteq> Some [] \<and>
         hospitals (fst (setLocation (Resolved data) s)) = hospitals s \<and>
         predictions (fst (setLocation (Resolved data) s)) = predictions s \<and>
         userLocation (fst (setLocation (Resolved data) s)) = userLocation s \<and>
         locationSet (fst (setLocation (Resolved data) s)) = locationSet s \<and>
         loading (fst (setLocation (Resolved data) s)) = loading s"
  using assms
  by (auto simp: setLocation_def setLocation_updates_def apply_updates_def after_updates_def
      or_text_def split: option.splits)

theorem failed_relocation_keeps_state_witness:
  "status (demo_response ''error'' None) \<noteq> ''success'' \<and>
   resp_error (demo_response ''error'' None) = Some ''Location not found'' \<and>
   error (fst (setLocation (Resolved (demo_response ''error'' None)) demo_state))
     = Some ''Location not found'' \<and>
   hospitals (fst (setLocation (Resolved (demo_response ''error'' None)) demo_state))
     = hospitals demo_state \<and>
   predictions (fst (setLocation (Resolved (demo_response ''error'' None)) demo_state))
     = predictions demo_state"
proof -
  have a: "status (demo_response ''error'' None) \<noteq> ''success''"
    by (simp add: demo_response_def)
  have b: "resp_error (demo_response ''error'' None) = Some ''Location not found''"
    by (simp add: demo_response_def)
  have c: "''Location not found'' \<noteq> []"
    by simp
  from failed_relocation_keeps_state [OF a, of demo_state] b c
  have "error (fst (setLocation (Resolved (demo_response ''error'' None)) demo_state))
      = Some ''Location not found''"
    by blast
  with a b failed_relocation_keeps_state [OF a, of demo_state]
  show ?thesis by blast
qed

section \<open>Properties of the street-cam note\<close>

text \<open>
  C6, as stated, fails: a body with status ok that carries no insight makes the handler
  throw inside its \<^verbatim>\<open>try\<close> block, so the request succeeded, the status is ok, and
  the note is not updated.
\<close>

theorem ok_status_without_insight_keeps_note:
  "cam_status \<lparr>cam_status = ''ok'', cam_insight = None\<rparr> = ''ok'' \<and>
   pingStreetCam_call (Resolved (Some \<lparr>cam_status = ''ok'', cam_insight = None\<rparr>)) = None \<and>
   pingStreetCam (Resolved (Some \<lparr>cam_status = ''ok'', cam_insight = None\<rparr>)) None = None"
  by (simp add: pingStreetCam_call_def pingStreetCam_def)

text \<open>
  C6, amended. The note is updated if and only if the request succeeds, its parsed body
  has status ok and the body carries \<open>insight.analysis\<close>; the new note is then the text
  built from traffic_level, estimated_cars and confidence of that analysis, and from
  nothing else. In every other case, a failed request or parse included, the note keeps
  its value, and the handler has no other effect.
\<close>

theorem camNote_updated_iff:
  "(pingStreetCam_call outcome \<noteq> None) =
     (\<exists>data i a. outcome = Resolved (Some data) \<and> cam_status data = ''ok'' \<and>
        cam_insight data = Some i \<and> insight_analysis i = Some a) \<and>
   (\<forall>data i a. outcome = Resolved (Some data) \<and> cam_status data = ''ok'' \<and>
        cam_insight data = Some i \<and> insight_analysis i = Some a \<longrightarrow>
      pingStreetCam outcome camNote =
        Some (''street cam vibe: '' @ traffic_level a @ '' '' @ bullet @ '' ~'' @
              estimated_cars a @ '' cars '' @ bullet @ '' conf '' @
              analysis_confidence a @ ''%'')) \<and>
   (pingStreetCam_call outcome = None \<longrightarrow> pingStreetCam outcome camNote = camNote) \<and>
   pingStreetCam Rejected camNote = camNote"
  by (auto simp: pingStreetCam_call_def pingStreetCam_def cam_note_text_def
      split: fetched.splits option.splits)

theorem camNote_updated_iff_witness:
  "pingStreetCam
     (Resolved (Some \<lparr>cam_status = ''ok'',
        cam_insight = Some \<lparr>insight_analysis =
          Some \<lparr>traffic_level = ''heavy'', estimated_cars = ''42'',
                analysis_confidence = ''87''\<rparr>\<rparr>\<rparr>))
     None =
   Some (''street cam vibe: heavy '' @ bullet @ '' ~42 cars '' @ bullet @ '' conf 87%'') \<and>
   pingStreetCam_call (Resolved (Some \<lparr>cam_status = ''down'', cam_insight = None\<rparr>)) = None \<and>
   pingStreetCam (Resolved (Some \<lparr>cam_status = ''down'', cam_insight = None\<rparr>)) (Some ''old note'')
     = Some ''old note''"
proof -
  let ?a = "\<lparr>traffic_level = ''heavy'', estimated_cars = ''42'', analysis_confidence = ''87''\<rparr>"
  let ?i = "\<lparr>insight_analysis = Some ?a\<rparr>"
  let ?d = "\<lparr>cam_status = ''ok'', cam_insight = Some ?i\<rparr>"
  let ?e = "\<lparr>cam_status = ''down'', cam_insight = None\<rparr>"
  have ok: "Resolved (Some ?d) = Resolved (Some ?d) \<and> cam_status ?d = ''ok'' \<and>
      cam_insight ?d = Some ?i \<and> insight_analysis ?i = Some ?a"
    by simp
  from camNote_updated_iff [of "Resolved (Some ?d)" None] ok
  have 1: "pingStreetCam (Resolved (Some ?d)) None =
        Some (''street cam vibe: '' @ traffic_level ?a @ '' '' @ bullet @ '' ~'' @
              estimated_cars ?a @ '' cars '' @ bullet @ '' conf '' @
              analysis_confidence ?a @ ''%'')"
    by blast
  have down: "\<not> (\<exists>data i a. Resolved (Some ?e) = Resolved (Some data) \<and> cam_status data = ''ok'' \<and>
        cam_insight data = Some i \<and> insight_analysis i = Some a)"
    by simp
  from camNote_updated_iff [of "Resolved (Some ?e)" "Some ''old note''"] down
  have 2: "pingStreetCam_call (Resolved (Some ?e)) = None"
    by blast
  with camNote_updated_iff [of "Resolved (Some ?e)" "Some ''old note''"]
  have 3: "pingStreetCam (Resolved (Some ?e)) (Some ''old note'') = Some ''old note''"
    by blast
  from 1 2 3 show ?thesis by simp
qed

section \<open>Properties of the prediction engine\<close>

lemma heuristic_wait_nonneg: "0 \<le> heuristic_wait cfg ctx"
  by (simp add: heuristic_wait_def)

text \<open>
  C4. \<open>predict\<close> returns a prediction for every hospital and context. When the provider
  call fails, or its text has no parseable wait time, the prediction is tagged fallback
  and its wait time is the heuristic estimate, a non-negative integer.
\<close>

theorem predict_falls_back:
  assumes "outcome = Provider_Error \<or> (\<exists>t. outcome = Text t \<and> parse t = None)"
  shows "predict cfg parse outcome h ctx = fallback_prediction cfg h ctx \<and>
         engine_method (predict cfg parse outcome h ctx) = Fallback \<and>
         wait_time (predict cfg parse outcome h ctx) = heuristic_wait cfg ctx \<and>
         0 \<le> wait_time (predict cfg parse outcome h ctx) \<and>
         engine_hospital_id (predict cfg parse outcome h ctx) = hospital_id h"
proof -
  from assms have "predict cfg parse outcome h ctx = fallback_prediction cfg h ctx"
    by (auto simp: predict_def)
  then show ?thesis
    by (simp add: fallback_prediction_def Let_def heuristic_wait_nonneg)
qed

theorem predict_falls_back_witness:
  "engine_method (predict demo_config (\<lambda>t. None) (Text ''about an hour'')
      (demo_hospital ''h1'') demo_context) = Fallback \<and>
   wait_time (predict demo_config (\<lambda>t. None) (Text ''about an hour'')
      (demo_hospital ''h1'') demo_context) = 55 \<and>
   engine_method (predict demo_config (\<lambda>t. None) Provider_Error
      (demo_hospital ''h1'') demo_context) = Fallback"
proof -
  have a: "Text ''about an hour'' = Provider_Error \<or>
      (\<exists>t. Text ''about an hour'' = Text t \<and> (\<lambda>t. None :: parsed_answer option) t = None)"
    by simp
  have b: "Provider_Error = Provider_Error \<or>
      (\<exists>t. Provider_Error = Text t \<and> (\<lambda>t. None :: parsed_answer option) t = None)"
    by simp
  have c: "heuristic_wait demo_config demo_context = 55"
    by (simp add: heuristic_wait_def demo_config_def demo_context_def)
  note text_case = predict_falls_back [OF a, of demo_config "demo_hospital ''h1''" demo_context]
  note error_case = predict_falls_back [OF b, of demo_config "demo_hospital ''h1''" demo_context]
  from text_case have 1: "engine_method (predict demo_config (\<lambda>t. None) (Text ''about an hour'')
      (demo_hospital ''h1'') demo_context) = Fallback"
    by blast
  from text_case have "wait_time (predict demo_config (\<lambda>t. None) (Text ''about an hour'')
      (demo_hospital ''h1'') demo_context) = heuristic_wait demo_config demo_context"
    by blast
  with c have 2: "wait_time (predict demo_config (\<lambda>t. None) (Text ''about an hour'')
      (demo_hospital ''h1'') demo_context) = 55"
    by simp
  from error_case have 3: "engine_method (predict demo_config (\<lambda>t. None) Provider_Error
      (demo_hospital ''h1'') demo_context) = Fallback"
    by blast
  from 1 2 3 show ?thesis by blast
qed

section \<open>Properties of the update history\<close>

lemma take_append_take: "take n (xs @ take n ys) = take n (xs @ ys)"
  by (simp add: min_def)

lemma predictions_effect_length:
  "length prev \<le> 10 \<Longrightarrow> length (predictions_effect now preds prev) \<le> 10"
  by (simp add: predictions_effect_def)

lemma run_effects_recorded:
  "length hist \<le> 10 \<Longrightarrow> run_effects changes hist = take 10 (recorded changes @ hist)"
proof (induction changes arbitrary: hist)
  case Nil
  then show ?case by (simp add: recorded_def)
next
  case (Cons c changes)
  obtain now preds where c: "c = (now, preds)" by (cases c)
  have len: "length (predictions_effect now preds hist) \<le> 10"
    using Cons.prems by (rule predictions_effect_length)
  show ?case
  proof (cases "preds = []")
    case True
    then show ?thesis using Cons.IH [OF Cons.prems] c
      by (simp add: predictions_effect_def Object_keys_def recorded_def)
  next
    case False
    have "run_effects (c # changes) hist =
        take 10 (recorded changes @ newUpdate now preds # take 9 hist)"
      using Cons.IH [OF len] c False by (simp add: predictions_effect_def Object_keys_def)
    also have "newUpdate now preds # take 9 hist = take 10 (newUpdate now preds # hist)"
      by simp
    also have "take 10 (recorded changes @ take 10 (newUpdate now preds # hist)) =
        take 10 (recorded changes @ newUpdate now preds # hist)"
      by (rule take_append_take)
    also have "recorded changes @ newUpdate now preds # hist = recorded (c # changes) @ hist"
      using c False by (simp add: recorded_def)
    finally show ?thesis .
  qed
qed

lemma recorded_nonempty: "u \<in> set (recorded changes) \<Longrightarrow> update_predictions u \<noteq> []"
  by (auto simp: recorded_def newUpdate_def)

lemma updateHistory_after_recorded: "updateHistory_after changes = take 10 (recorded changes)"
  using run_effects_recorded [of "[]" changes] by (simp add: updateHistory_after_def)

lemma history_entries_nonempty:
  "u \<in> set (updateHistory_after changes) \<Longrightarrow> update_predictions u \<noteq> []"
  using recorded_nonempty [of u changes]
  by (auto simp: updateHistory_after_recorded dest: in_set_takeD)

text \<open>
  C7. After any sequence of predictions changes the history consists of the entries of
  the changes with a non-empty predictions map, newest first, cut off after 10. A change
  with a non-empty map prepends its entry and keeps the first 9 of the entries before
  it; a change with an empty map leaves the history as it is.
\<close>

theorem history_is_bounded_newest_first:
  "updateHistory_after changes = take 10 (recorded changes) \<and>
   length (updateHistory_after changes) \<le> 10 \<and>
   (preds \<noteq> [] \<longrightarrow>
      updateHistory_after (changes @ [(now, preds)]) =
        newUpdate now preds # take 9 (updateHistory_after changes)) \<and>
   (preds = [] \<longrightarrow>
      updateHistory_after (changes @ [(now, preds)]) = updateHistory_after changes) \<and>
   (\<forall>u \<in> set (updateHistory_after changes). update_predictions u \<noteq> [])"
proof -
  have a: "updateHistory_after changes = take 10 (recorded changes)"
    by (rule updateHistory_after_recorded)
  have b: "length (updateHistory_after changes) \<le> 10"
    by (simp add: a)
  have c: "updateHistory_after (changes @ [(now, preds)]) =
        newUpdate now preds # take 9 (updateHistory_after changes)" if "preds \<noteq> []"
    using that by (simp add: updateHistory_after_recorded recorded_def take_Cons')
  have d: "updateHistory_after (changes @ [(now, preds)]) = updateHistory_after changes"
    if "preds = []"
    using that by (simp add: updateHistory_after_recorded recorded_def)
  have e: "\<forall>u \<in> set (updateHistory_after changes). update_predictions u \<noteq> []"
    using history_entries_nonempty by blast
  from a b c d e show ?thesis by blast
qed

theorem history_is_bounded_newest_first_witness:
  "demo_predictions \<noteq> [] \<and>
   updateHistory_after (demo_changes @ [(12, demo_predictions)]) =
     newUpdate 12 demo_predictions # take 9 (updateHistory_after demo_changes) \<and>
   length (updateHistory_after demo_changes) = 10 \<and>
   map timestamp (updateHistory_after demo_changes) = [11, 10, 9, 8, 7, 6, 5, 4, 3, 2] \<and>
   map timestamp (updateHistory_after (demo_changes @ [(12, demo_predictions)])) =
     [12, 11, 10, 9, 8, 7, 6, 5, 4, 3] \<and>
   updateHistory_after (demo_changes @ [(12, [])]) = updateHistory_after demo_changes"
proof -
  have ne: "demo_predictions \<noteq> []"
    by (simp add: demo_predictions_def)
  from history_is_bounded_newest_first [of demo_changes demo_predictions 12] ne
  have step: "updateHistory_after (demo_changes @ [(12, demo_predictions)]) =
      newUpdate 12 demo_predictions # take 9 (updateHistory_after demo_changes)"
    by blast
  from history_is_bounded_newest_first [of demo_changes "[]" 12]
  have skip: "updateHistory_after (demo_changes @ [(12, [])]) = updateHistory_after demo_changes"
    by blast
  have ts: "map timestamp (updateHistory_after demo_changes) = [11, 10, 9, 8, 7, 6, 5, 4, 3, 2]"
    using ne
    by (simp add: updateHistory_after_def demo_changes_def predictions_effect_def
        Object_keys_def newUpdate_def)
  have len: "length (updateHistory_after demo_changes) = 10"
    using arg_cong [where f = length, OF ts] by simp
  have ts': "map timestamp (updateHistory_after (demo_changes @ [(12, demo_predictions)])) =
     [12, 11, 10, 9, 8, 7, 6, 5, 4, 3]"
    using ts by (simp add: step newUpdate_def take_map [symmetric])
  from ne step skip ts len ts' show ?thesis by blast
qed

section \<open>Properties of the trend\<close>

lemma getTrendDirection_range:
  "getTrendDirection preds hist \<in> {''increasing'', ''decreasing'', ''stable''}"
  by (simp add: getTrendDirection_def Let_def)

lemma previous_average_finite:
  assumes "2 \<le> length (updateHistory_after changes)"
  shows "previous_divisor (updateHistory_after changes ! 1) \<noteq> 0 \<and>
         (\<exists>x. previous_average (updateHistory_after changes) = Fin x)"
proof -
  let ?h = "updateHistory_after changes"
  have "?h ! 1 \<in> set ?h" using assms by simp
  then have ne: "update_predictions (?h ! 1) \<noteq> []" by (rule history_entries_nonempty)
  then have d: "previous_divisor (?h ! 1) \<noteq> 0"
    by (simp add: previous_divisor_def Object_keys_def)
  have "at_index ?h 1 = Some (?h ! 1)" using assms by (simp add: at_index_def)
  with d show ?thesis by (simp add: previous_average_def js_div_def)
qed

text \<open>
  C9. \<open>getTrendDirection\<close> returns increasing, decreasing or stable for every
  predictions map and every history, and stable whenever the history has fewer than 2
  entries. On every history the component can reach that has 2 entries or more, the
  divisor of the previous average is not zero and the average is a finite number.
\<close>

theorem getTrendDirection_total_and_safe:
  "getTrendDirection preds hist \<in> {''increasing'', ''decreasing'', ''stable''} \<and>
   (length hist < 2 \<longrightarrow> getTrendDirection preds hist = ''stable'') \<and>
   (2 \<le> length (updateHistory_after changes) \<longrightarrow>
      previous_divisor (updateHistory_after changes ! 1) \<noteq> 0 \<and>
      (\<exists>x. previous_average (updateHistory_after changes) = Fin x))"
  using getTrendDirection_range [of preds hist] previous_average_finite [of changes]
  by (simp add: getTrendDirection_def)

theorem getTrendDirection_total_and_safe_witness:
  "length ([] :: update list) < 2 \<and>
   getTrendDirection demo_predictions [] = ''stable'' \<and>
   2 \<le> length (updateHistory_after demo_changes) \<and>
   previous_divisor (updateHistory_after demo_changes ! 1) \<noteq> 0 \<and>
   (\<exists>x. previous_average (updateHistory_after demo_changes) = Fin x)"
proof -
  have two: "2 \<le> length (updateHistory_after demo_changes)"
    by (simp add: updateHistory_after_def demo_changes_def demo_predictions_def
        predictions_effect_def Object_keys_def)
  have short: "length ([] :: update list) < 2"
    by simp
  from getTrendDirection_total_and_safe [of demo_predictions "[]" demo_changes] two short
  show ?thesis by blast
qed

section \<open>Properties of the background grid\<close>

lemma index_shapeTypes_not_rotating:
  "\<not> Array_includes rotating_types (index shapeTypes k)"
proof (cases "0 \<le> k \<and> k < 3")
  case True
  then have "k = 0 \<or> k = 1 \<or> k = 2" by auto
  then show ?thesis
    by (auto simp: Array_includes_def index_def shapeTypes_def rotating_types_def)
next
  case False
  then show ?thesis
    by (auto simp: Array_includes_def index_def shapeTypes_def)
qed

lemma index_shapeTypes_in_range:
  assumes "0 \<le> r" "r < 1"
  shows "index shapeTypes (Math_floor (r * real (length shapeTypes))) \<in> Some ` set shapeTypes"
proof -
  let ?k = "Math_floor (r * real (length shapeTypes))"
  have "0 \<le> ?k" using assms by (simp add: Math_floor_def shapeTypes_def)
  moreover have "?k < 3" using assms by (simp add: Math_floor_def shapeTypes_def floor_less_iff)
  ultimately have "?k = 0 \<or> ?k = 1 \<or> ?k = 2" by linarith
  then show ?thesis
    by (auto simp: index_def shapeTypes_def)
qed

lemma make_element_plain:
  assumes "\<forall>n. 0 \<le> rnd n \<and> rnd n < 1"
  shows "plain (fst (make_element rnd i j pos))"
  using index_shapeTypes_in_range [of "rnd pos"] index_shapeTypes_not_rotating assms
  by (simp add: plain_def make_element_def Math_random_def Let_def split_def)

lemma cell_loop_plain:
  "\<forall>n. 0 \<le> rnd n \<and> rnd n < 1 \<Longrightarrow> \<forall>e \<in> set acc. plain e \<Longrightarrow>
   \<forall>e \<in> set (fst (cell_loop rnd i n j acc pos)). plain e"
proof (induction rnd i n j acc pos rule: cell_loop.induct)
  case (1 rnd i numElements j cellElements pos)
  show ?case
  proof (cases "int j < numElements")
    case True
    obtain e pos' where me: "make_element rnd i j pos = (e, pos')"
      by (cases "make_element rnd i j pos")
    have "plain e" using make_element_plain [OF "1.prems"(1), of i j pos] me by simp
    with "1.prems"(2) have "\<forall>x \<in> set (cellElements @ [e]). plain x" by auto
    from "1.IH" [OF True me [symmetric] refl "1.prems"(1) this] True me show ?thesis
      by (simp add: cell_loop.simps [of rnd i numElements j])
  next
    case False
    with "1.prems"(2) show ?thesis by (simp add: cell_loop.simps [of rnd i numElements j])
  qed
qed

lemma cell_loop_length:
  "length (fst (cell_loop rnd i n j acc pos)) = length acc + nat (n - int j)"
proof (induction rnd i n j acc pos rule: cell_loop.induct)
  case (1 rnd i numElements j cellElements pos)
  show ?case
  proof (cases "int j < numElements")
    case True
    obtain e pos' where me: "make_element rnd i j pos = (e, pos')"
      by (cases "make_element rnd i j pos")
    from "1.IH" [OF True me [symmetric] refl] True me show ?thesis
      by (simp add: cell_loop.simps [of rnd i numElements j])
  next
    case False
    then show ?thesis by (simp add: cell_loop.simps [of rnd i numElements j])
  qed
qed

lemma make_cell_bounded:
  assumes "\<forall>n. 0 \<le> rnd n \<and> rnd n < 1"
  shows "cellId (fst (make_cell rnd i pos)) = i \<and>
         length (elements (fst (make_cell rnd i pos))) \<le> 2 \<and>
         (\<forall>e \<in> set (elements (fst (make_cell rnd i pos))). plain e)"
proof -
  let ?r = "rnd (Suc pos)"
  have "0 \<le> ?r" "?r < 1" using assms by auto
  then have "Math_floor (?r * 2) + 1 \<le> 2"
    by (simp add: Math_floor_def floor_le_iff)
  then have len: "length (fst (cell_loop rnd i (Math_floor (?r * 2) + 1) 0 [] p)) \<le> 2" for p
    by (simp add: cell_loop_length)
  have pl: "\<forall>e \<in> set (fst (cell_loop rnd i n 0 [] p)). plain e" for n p
    by (rule cell_loop_plain [OF assms]) simp
  show ?thesis
    using len pl by (simp add: make_cell_def Math_random_def Let_def split_def)
qed

lemma array_from_bounded:
  assumes "\<forall>n. 0 \<le> rnd n \<and> rnd n < 1"
  shows "length (array_from rnd n i pos) = n \<and>
         (\<forall>c \<in> set (array_from rnd n i pos).
            length (elements c) \<le> 2 \<and> (\<forall>e \<in> set (elements c). plain e))"
proof (induction n arbitrary: i pos)
  case 0
  then show ?case by simp
next
  case (Suc n)
  from make_cell_bounded [OF assms, of i pos] Suc.IH [of "Suc i" "snd (make_cell rnd i pos)"]
  show ?case by (simp add: split_def Let_def)
qed

text \<open>
  C10. Whatever numbers in \<open>[0, 1)\<close> the random source gives, the grid has 300 cells,
  every cell holds at most 2 elements, and every element has one of the types dot, circle
  and square and is not rotating.
\<close>

theorem grid_elements_never_rotate:
  assumes "\<forall>n. 0 \<le> rnd n \<and> rnd n < 1"
  shows "length (newElements rnd) = 300 \<and>
         (\<forall>c \<in> set (newElements rnd).
            length (elements c) \<le> 2 \<and>
            (\<forall>e \<in> set (elements c).
               rotating e = False \<and>
               element_type e \<in> {Some ''dot'', Some ''circle'', Some ''square''}))"
proof -
  have "plain e \<longleftrightarrow>
      rotating e = False \<and> element_type e \<in> {Some ''dot'', Some ''circle'', Some ''square''}"
    for e
    by (auto simp: plain_def shapeTypes_def)
  with array_from_bounded [OF assms, of 300 0 0] show ?thesis
    by (simp add: newElements_def)
qed

theorem grid_elements_never_rotate_witness:
  "(\<forall>n. (0::real) \<le> demo_rnd n \<and> demo_rnd n < 1) \<and>
   length (newElements demo_rnd) = 300 \<and>
   length (elements (newElements demo_rnd ! 0)) \<le> 2 \<and>
   map element_type (elements (fst (make_cell demo_rnd 0 0))) = [Some ''square'', Some ''square''] \<and>
   map rotating (elements (fst (make_cell demo_rnd 0 0))) = [False, False]"
proof -
  have h: "\<forall>n. (0::real) \<le> demo_rnd n \<and> demo_rnd n < 1"
    by (simp add: demo_rnd_def)
  note g = grid_elements_never_rotate [OF h]
  from g have len: "length (newElements demo_rnd) = 300" by blast
  then have "newElements demo_rnd ! 0 \<in> set (newElements demo_rnd)" by simp
  with g have c0: "length (elements (newElements demo_rnd ! 0)) \<le> 2" by blast
  have mc: "map element_type (elements (fst (make_cell demo_rnd 0 0))) =
        [Some ''square'', Some ''square''] \<and>
      map rotating (elements (fst (make_cell demo_rnd 0 0))) = [False, False]"
    by (simp add: make_cell_def make_element_def Math_random_def Math_floor_def demo_rnd_def
        index_def shapeTypes_def rotating_types_def Array_includes_def Let_def
        cell_loop.simps [of _ _ _ 0] cell_loop.simps [of _ _ _ "Suc 0"]
        cell_loop.simps [of _ _ _ "Suc (Suc 0)"])
  from h len c0 mc show ?thesis by blast
qed

end
